theory Spec2Isabelle
  imports Main "HOL-Library.AList" "HOL-Library.Sublist"
begin

section \<open>Data model (package model)\<close>

text \<open>
  Go strings are byte strings and become \<^typ>\<open>string\<close>; a nullable \<^verbatim>\<open>*string\<close> becomes
  \<^typ>\<open>string option\<close>; \<^verbatim>\<open>int\<close> and \<^verbatim>\<open>int64\<close> become \<^typ>\<open>int\<close> (no arithmetic
  that could overflow is done on them in the code modelled here). A Go
  \<^verbatim>\<open>map[string]T\<close> becomes an association list, whose order stands for the
  iteration order the runtime happened to choose; lookups go through \<^const>\<open>map_of\<close>,
  \<^verbatim>\<open>m[k] = v\<close> is \<^const>\<open>AList.update\<close>, \<^verbatim>\<open>delete(m, k)\<close> is \<^const>\<open>AList.delete\<close> and
  \<^verbatim>\<open>len(m) == 0\<close> is the test for the empty list. The named string types
  \<^verbatim>\<open>DeviceType\<close> and \<^verbatim>\<open>ProtocolType\<close> are strings with named constants.
\<close>

type_synonym DeviceType = string
type_synonym ProtocolType = string

definition ProtocolTypeHTTP :: ProtocolType where
  "ProtocolTypeHTTP = ''http''"


definition DeviceTypeDesktop :: DeviceType where
  "DeviceTypeDesktop = ''desktop''"

definition ProtocolVersion :: string where
  "ProtocolVersion = ''2.1''"

record FileMetadata =
  Modified :: "string option"
  Accessed :: "string option"

record FileDto =
  ID :: string
  FileName :: string
  Size :: int
  FileType :: string
  SHA256 :: "string option"
  Preview :: "string option"
  Metadata :: "FileMetadata option"
  Legacy :: bool

record DeviceInfo =
  Alias :: string
  Version :: string
  DeviceModel :: "string option"
  DeviceType :: DeviceType
  Fingerprint :: string
  Port :: int
  DownloadDir :: string
  IP :: string
  Download :: bool
  HttpsEnabled :: bool

record InfoDto =
  Alias :: string
  Version :: string
  DeviceModel :: "string option"
  DeviceType :: DeviceType
  Fingerprint :: string
  Download :: bool

record MulticastDto =
  Alias :: string
  Version :: string
  DeviceModel :: "string option"
  DeviceType :: DeviceType
  Fingerprint :: string
  Port :: int
  Protocol :: ProtocolType
  Download :: bool
  Announce :: bool

text \<open>
  Times are nanosecond readings of one clock and durations are differences of them,
  both unbounded integers: \<^verbatim>\<open>time.Since\<close> saturates only at the bounds of a 64-bit
  count of nanoseconds (some 292 years), which two readings of a running clock do
  not reach.
\<close>

type_synonym time = int
type_synonym duration = int

record Device =
  IP :: string
  Version :: string
  Port :: int
  Alias :: string
  Protocol :: ProtocolType
  Fingerprint :: string
  DeviceModel :: "string option"
  DeviceType :: DeviceType
  Download :: bool
  LastSeen :: time
  Available :: bool

record PrepareUploadRequestDto =
  Info :: InfoDto
  Files :: "(string \<times> FileDto) list"
  SendZipped :: bool
  ForceBulk :: bool
  TargetPath :: string
  KeepFolders :: bool
  Token :: string

record PrepareUploadResponseDto =
  SessionID :: string
  Files :: "(string \<times> string) list"
  Token :: string

record ReceiveRequestResponseDto =
  Info :: InfoDto
  SessionID :: string
  Files :: "(string \<times> FileDto) list"

record Config =
  Alias :: string
  Port :: int
  HttpsEnabled :: bool
  MulticastGroup :: string
  DeviceModel :: "string option"
  DeviceType :: DeviceType
  CertificateHash :: string
  PIN :: string
  DownloadDir :: string

text \<open>\<^verbatim>\<open>Config.ToInfoDto\<close>; the certificate hash of the security context is kept as a
  field of the configuration.\<close>

definition ToInfoDto :: "Config \<Rightarrow> InfoDto" where
  "ToInfoDto c =
     \<lparr>InfoDto.Alias = Config.Alias c, Version = ProtocolVersion,
      DeviceModel = Config.DeviceModel c, DeviceType = Config.DeviceType c,
      Fingerprint = CertificateHash c, Download = False\<rparr>"

section \<open>Session services (package services)\<close>

text \<open>
  \<^verbatim>\<open>uuid.NewString()\<close> is a source of random strings. Every operation that draws
  from it takes the draws as an argument \<open>uuid\<close>: \<open>uuid k\<close> is what the \<open>k\<close>-th call
  made during the operation returns. The mutex of each service serialises its
  methods, so each method is one atomic state transformer.
\<close>

type_synonym uuid_draws = "nat \<Rightarrow> string"

text \<open>An \<^verbatim>\<open>error\<close> made by \<^verbatim>\<open>fmt.Errorf\<close> is its message.\<close>

type_synonym go_error = string

subsection \<open>SendService\<close>

record ActiveSendSession =
  SessionID :: string
  Files :: "(string \<times> FileDto) list"

record SendService =
  currentSession :: "ActiveSendSession option"

definition NewSendService :: SendService where
  "NewSendService = \<lparr>SendService.currentSession = None\<rparr>"

definition Send_CreateSession ::
  "uuid_draws \<Rightarrow> SendService \<Rightarrow> (string \<times> FileDto) list
     \<Rightarrow> (go_error + ActiveSendSession) \<times> SendService" where
  "Send_CreateSession uuid s files =
     (if SendService.currentSession s \<noteq> None then (Inl ''session already active'', s)
      else
        let sessionId = uuid 0;
            session = \<lparr>ActiveSendSession.SessionID = sessionId, Files = files\<rparr>
        in (Inr session, s\<lparr>SendService.currentSession := Some session\<rparr>))"

definition Send_GetSession :: "SendService \<Rightarrow> ActiveSendSession option" where
  "Send_GetSession s = SendService.currentSession s"


definition Send_CloseSession :: "SendService \<Rightarrow> SendService" where
  "Send_CloseSession s = s\<lparr>SendService.currentSession := None\<rparr>"

subsection \<open>ReceiveService\<close>

record ActiveFile =
  Dto :: FileDto
  Token :: string

record ActiveReceiveSession =
  SessionID :: string
  Sender :: DeviceInfo
  Files :: "(string \<times> ActiveFile) list"

record ReceiveService =
  currentSession :: "ActiveReceiveSession option"

definition NewReceiveService :: ReceiveService where
  "NewReceiveService = \<lparr>ReceiveService.currentSession = None\<rparr>"

text \<open>The loop of \<^verbatim>\<open>ReceiveService.CreateSession\<close> over the requested files: the
  \<open>n\<close>-th draw becomes the token of the file visited now.\<close>

fun session_files ::
  "uuid_draws \<Rightarrow> nat \<Rightarrow> (string \<times> FileDto) list \<Rightarrow> (string \<times> ActiveFile) list
     \<Rightarrow> (string \<times> ActiveFile) list" where
  "session_files uuid n [] sessionFiles = sessionFiles"
| "session_files uuid n ((fileId, fileDto) # files) sessionFiles =
     session_files uuid (Suc n) files
       (AList.update fileId \<lparr>Dto = fileDto, Token = uuid n\<rparr> sessionFiles)"

definition Receive_CreateSession ::
  "uuid_draws \<Rightarrow> ReceiveService \<Rightarrow> DeviceInfo \<Rightarrow> (string \<times> FileDto) list
     \<Rightarrow> (go_error + ActiveReceiveSession) \<times> ReceiveService" where
  "Receive_CreateSession uuid s sender files =
     (if ReceiveService.currentSession s \<noteq> None then (Inl ''session already active'', s)
      else
        let sessionId = uuid 0;
            sessionFiles = session_files uuid 1 files [];
            session = \<lparr>ActiveReceiveSession.SessionID = sessionId, Sender = sender,
                       Files = sessionFiles\<rparr>
        in (Inr session, s\<lparr>ReceiveService.currentSession := Some session\<rparr>))"

definition Receive_GetSession :: "ReceiveService \<Rightarrow> ActiveReceiveSession option" where
  "Receive_GetSession s = ReceiveService.currentSession s"

definition Receive_GetSessionByID ::
  "ReceiveService \<Rightarrow> string \<Rightarrow> ActiveReceiveSession option" where
  "Receive_GetSessionByID s sessionID =
     (case ReceiveService.currentSession s of
        None \<Rightarrow> None
      | Some cur \<Rightarrow> if ActiveReceiveSession.SessionID cur = sessionID then Some cur else None)"

definition Receive_CloseSession :: "ReceiveService \<Rightarrow> ReceiveService" where
  "Receive_CloseSession s = s\<lparr>ReceiveService.currentSession := None\<rparr>"

definition RemoveFileFromSession :: "ReceiveService \<Rightarrow> string \<Rightarrow> string \<Rightarrow> ReceiveService" where
  "RemoveFileFromSession s sessionID fileID =
     (case ReceiveService.currentSession s of
        None \<Rightarrow> s
      | Some cur \<Rightarrow>
          if ActiveReceiveSession.SessionID cur = sessionID then
            let files' = AList.delete fileID (ActiveReceiveSession.Files cur) in
            if files' = [] then s\<lparr>ReceiveService.currentSession := None\<rparr>
            else s\<lparr>ReceiveService.currentSession :=
                     Some (cur\<lparr>ActiveReceiveSession.Files := files'\<rparr>)\<rparr>
          else s)"

section \<open>File paths (the library's \<^verbatim>\<open>path/filepath\<close>, Unix separator)\<close>

text \<open>
  \<^verbatim>\<open>filepath.Join\<close> and \<^verbatim>\<open>filepath.Clean\<close> belong to the Go library, not to the
  repository; they are modelled from the library's documented rules for \<^verbatim>\<open>Clean\<close>:
  empty and \<^verbatim>\<open>.\<close> elements are dropped, an inner \<^verbatim>\<open>..\<close> removes the element before
  it, a \<^verbatim>\<open>..\<close> at the root of a rooted path is dropped, a \<^verbatim>\<open>..\<close> that cannot be
  removed in a relative path is kept, and the empty result is \<^verbatim>\<open>.\<close>. \<^verbatim>\<open>Join\<close> skips
  leading empty arguments, joins the rest with the separator and cleans the result.
\<close>

fun split_sep :: "string \<Rightarrow> string list" where
  "split_sep [] = [[]]"
| "split_sep (c # cs) =
     (if c = CHR ''/'' then [] # split_sep cs
      else (case split_sep cs of [] \<Rightarrow> [[c]] | e # es \<Rightarrow> (c # e) # es))"

fun join_sep :: "string list \<Rightarrow> string" where
  "join_sep [] = []"
| "join_sep [e] = e"
| "join_sep (e # es) = e @ ''/'' @ join_sep es"

text \<open>\<open>out\<close> is the stack of elements written so far, last one first.\<close>

fun clean_elems :: "bool \<Rightarrow> string list \<Rightarrow> string list \<Rightarrow> string list" where
  "clean_elems rooted [] out = rev out"
| "clean_elems rooted (e # es) out =
     (if e = [] \<or> e = ''.'' then clean_elems rooted es out
      else if e = ''..'' then
        (case out of
           [] \<Rightarrow> if rooted then clean_elems rooted es [] else clean_elems rooted es [''..'']
         | t # ts \<Rightarrow>
             if t = ''..'' then clean_elems rooted es (''..'' # out)
             else clean_elems rooted es ts)
      else clean_elems rooted es (e # out))"

definition filepath_Clean :: "string \<Rightarrow> string" where
  "filepath_Clean path =
     (if path = [] then ''.''
      else
        let rooted = (hd path = CHR ''/'');
            out = (if rooted then ''/'' else []) @ join_sep (clean_elems rooted (split_sep path) [])
        in if out = [] then ''.'' else out)"

fun filepath_Join :: "string list \<Rightarrow> string" where
  "filepath_Join [] = []"
| "filepath_Join (e # es) =
     (if e \<noteq> [] then filepath_Clean (join_sep (e # es)) else filepath_Join es)"

section \<open>Storage sink (package storage)\<close>

text \<open>
  The file system is a map from paths to contents. What the operating system answers
  to \<^verbatim>\<open>os.MkdirAll\<close>, \<^verbatim>\<open>os.Create\<close>, \<^verbatim>\<open>io.Copy\<close> and \<^verbatim>\<open>os.Remove\<close> is not decided by the
  program: it is the argument \<open>os\<close> of \<open>SaveStreamToFile\<close>. \<open>CopyFails written removed\<close>
  is a copy that fails after the bytes \<open>written\<close>, with \<open>removed\<close> telling whether the
  removal of the partial file worked. Directories and the progress callback (which
  only logs) are not part of the model.
\<close>

type_synonym filesystem = "string \<Rightarrow> string option"

datatype os_outcome = MkdirFails | CreateFails | CopyFails string bool | CopyOk

datatype storage_error = FailedToCreateDirectory | FailedToCreateFile | FailedToCopyStream

definition SaveStreamToFile ::
  "os_outcome \<Rightarrow> string \<Rightarrow> string \<Rightarrow> filesystem \<Rightarrow> storage_error option \<times> filesystem" where
  "SaveStreamToFile os stream filePath fs =
     (case os of
        MkdirFails \<Rightarrow> (Some FailedToCreateDirectory, fs)
      | CreateFails \<Rightarrow> (Some FailedToCreateFile, fs)
      | CopyFails written removed \<Rightarrow>
          (Some FailedToCopyStream,
           if removed then fs(filePath := None) else fs(filePath \<mapsto> written))
      | CopyOk \<Rightarrow> (None, fs(filePath \<mapsto> stream)))"

section \<open>HTTP plumbing (package httputil)\<close>

text \<open>
  A request carries its method, its URL query (every key with its list of values, as
  \<^verbatim>\<open>url.Values\<close>), the peer address and the body. \<^verbatim>\<open>net.SplitHostPort\<close> and the JSON
  decoder are library functions; the handlers take them as the arguments
  \<open>SplitHost\<close> (the host part, empty when the address does not parse, since the
  handlers drop the error) and \<open>Decode\<close> (\<open>None\<close> when decoding fails). A handler
  is a function from the request and the state it reads (the service, the file
  system) to the response and the state it leaves; logging is left out. The router
  admits only the method registered for a path; the handlers that check the method
  themselves do so in the model too.
\<close>

record Request =
  Method :: string
  Query :: "(string \<times> string list) list"
  RemoteAddr :: string
  Body :: string

definition Query_Get :: "Request \<Rightarrow> string \<Rightarrow> string" where
  "Query_Get r key =
     (case map_of (Query r) key of None \<Rightarrow> [] | Some [] \<Rightarrow> [] | Some (v # vs) \<Rightarrow> v)"

datatype payload =
    ErrorJson string
  | PrepareUploadJson PrepareUploadResponseDto
  | ReceiveRequestJson ReceiveRequestResponseDto
  | NullJson
  | Bytes string

record Response =
  StatusCode :: nat
  Header :: "(string \<times> string) list"
  Payload :: payload

abbreviation StatusOK :: nat where "StatusOK \<equiv> 200"
abbreviation StatusBadRequest :: nat where "StatusBadRequest \<equiv> 400"
abbreviation StatusUnauthorized :: nat where "StatusUnauthorized \<equiv> 401"
abbreviation StatusForbidden :: nat where "StatusForbidden \<equiv> 403"
abbreviation StatusNotFound :: nat where "StatusNotFound \<equiv> 404"
abbreviation StatusMethodNotAllowed :: nat where "StatusMethodNotAllowed \<equiv> 405"
abbreviation StatusConflict :: nat where "StatusConflict \<equiv> 409"
abbreviation StatusInternalServerError :: nat where "StatusInternalServerError \<equiv> 500"

definition RespondJSON :: "nat \<Rightarrow> payload \<Rightarrow> Response" where
  "RespondJSON statusCode data =
     \<lparr>StatusCode = statusCode, Header = [(''Content-Type'', ''application/json'')],
      Payload = data\<rparr>"

definition RespondError :: "nat \<Rightarrow> string \<Rightarrow> Response" where
  "RespondError statusCode message = RespondJSON statusCode (ErrorJson message)"

section \<open>Receive handlers (package handlers)\<close>

text \<open>The loop of \<^verbatim>\<open>PrepareUploadHandlerV2\<close> that copies each file's token into the
  response.\<close>

fun response_tokens ::
  "(string \<times> ActiveFile) list \<Rightarrow> (string \<times> string) list \<Rightarrow> (string \<times> string) list" where
  "response_tokens [] responseTokens = responseTokens"
| "response_tokens ((fileID, file) # files) responseTokens =
     response_tokens files (AList.update fileID (ActiveFile.Token file) responseTokens)"

definition PrepareUploadHandlerV2 ::
  "(string \<Rightarrow> string) \<Rightarrow> (string \<Rightarrow> PrepareUploadRequestDto option) \<Rightarrow> uuid_draws
     \<Rightarrow> Config \<Rightarrow> ReceiveService \<Rightarrow> Request \<Rightarrow> Response \<times> ReceiveService" where
  "PrepareUploadHandlerV2 SplitHost Decode uuid config receiveService r =
     (if Method r \<noteq> ''POST'' then
        (RespondError StatusMethodNotAllowed ''Method Not Allowed'', receiveService)
      else if PIN config \<noteq> [] \<and> Query_Get r ''pin'' \<noteq> PIN config then
        (RespondError StatusUnauthorized ''Invalid PIN'', receiveService)
      else if Receive_GetSession receiveService \<noteq> None then
        (RespondError StatusConflict ''Blocked by another session'', receiveService)
      else
        (case Decode (Body r) of
           None \<Rightarrow> (RespondError StatusBadRequest ''Request body malformed'', receiveService)
         | Some requestDto \<Rightarrow>
             if PrepareUploadRequestDto.Files requestDto = [] then
               (RespondError StatusBadRequest ''Request must contain at least one file'',
                receiveService)
             else
               let senderIP = SplitHost (RemoteAddr r);
                   info = PrepareUploadRequestDto.Info requestDto;
                   sender = \<lparr>DeviceInfo.Alias = InfoDto.Alias info,
                             Version = InfoDto.Version info,
                             DeviceModel = InfoDto.DeviceModel info,
                             DeviceType = InfoDto.DeviceType info,
                             Fingerprint = InfoDto.Fingerprint info,
                             Port = 0, DownloadDir = [], IP = senderIP,
                             Download = False, HttpsEnabled = False\<rparr>
               in (case Receive_CreateSession uuid receiveService sender
                          (PrepareUploadRequestDto.Files requestDto) of
                     (Inl err, receiveService') \<Rightarrow>
                       (RespondError StatusConflict ''Blocked by another session'',
                        receiveService')
                   | (Inr session, receiveService') \<Rightarrow>
                       let responseTokens =
                             response_tokens (ActiveReceiveSession.Files session) [];
                           responseDto =
                             \<lparr>PrepareUploadResponseDto.SessionID =
                                ActiveReceiveSession.SessionID session,
                              Files = responseTokens, Token = []\<rparr>
                       in (RespondJSON StatusOK (PrepareUploadJson responseDto),
                           receiveService'))))"

definition UploadHandlerV2 ::
  "(string \<Rightarrow> string) \<Rightarrow> os_outcome \<Rightarrow> Config \<Rightarrow> ReceiveService \<Rightarrow> filesystem \<Rightarrow> Request
     \<Rightarrow> Response \<times> ReceiveService \<times> filesystem" where
  "UploadHandlerV2 SplitHost os config receiveService fs r =
     (if Method r \<noteq> ''POST'' then
        (RespondError StatusMethodNotAllowed ''Method Not Allowed'', receiveService, fs)
      else
        let reqSessionId = Query_Get r ''sessionId'';
            reqFileId = Query_Get r ''fileId'';
            reqToken = Query_Get r ''token''
        in
        if reqSessionId = [] \<or> reqFileId = [] \<or> reqToken = [] then
          (RespondError StatusBadRequest
             ''Missing query parameters (sessionId, fileId, token)'', receiveService, fs)
        else
          (case Receive_GetSessionByID receiveService reqSessionId of
             None \<Rightarrow> (RespondError StatusForbidden ''Invalid session ID'', receiveService, fs)
           | Some session \<Rightarrow>
               let reqIP = SplitHost (RemoteAddr r) in
               if reqIP \<noteq> DeviceInfo.IP (Sender session) then
                 (RespondError StatusForbidden (''Invalid IP address: '' @ reqIP),
                  receiveService, fs)
               else
                 (case map_of (ActiveReceiveSession.Files session) reqFileId of
                    None \<Rightarrow>
                      (RespondError StatusForbidden ''Invalid fileId or token'',
                       receiveService, fs)
                  | Some fileInfo \<Rightarrow>
                      if ActiveFile.Token fileInfo \<noteq> reqToken then
                        (RespondError StatusForbidden ''Invalid fileId or token'',
                         receiveService, fs)
                      else
                        let destinationPath =
                              filepath_Join [Config.DownloadDir config, FileName (Dto fileInfo)]
                        in (case SaveStreamToFile os (Body r) destinationPath fs of
                              (Some err, fs') \<Rightarrow>
                                (RespondError StatusInternalServerError ''Failed to save file'',
                                 receiveService, fs')
                            | (None, fs') \<Rightarrow>
                                (RespondJSON StatusOK NullJson,
                                 RemoveFileFromSession receiveService reqSessionId reqFileId,
                                 fs')))))"

definition CancelHandler :: "ReceiveService \<Rightarrow> Request \<Rightarrow> Response \<times> ReceiveService" where
  "CancelHandler receiveService r =
     (if Method r \<noteq> ''POST'' then
        (RespondError StatusMethodNotAllowed ''Method Not Allowed'', receiveService)
      else
        let reqSessionId = Query_Get r ''sessionId'' in
        if reqSessionId = [] then
          (RespondError StatusBadRequest ''Missing sessionId parameter'', receiveService)
        else
          (case Receive_GetSessionByID receiveService reqSessionId of
             Some session \<Rightarrow> (RespondJSON StatusOK NullJson, Receive_CloseSession receiveService)
           | None \<Rightarrow> (RespondError StatusNotFound ''Session not found'', receiveService)))"

section \<open>Download handlers (package handlers)\<close>

text \<open>\<^verbatim>\<open>fmt.Sprintf("%d", n)\<close>: the decimal digits of \<open>n\<close>, with a minus sign when negative.\<close>

definition digit_char :: "nat \<Rightarrow> char" where
  "digit_char d =
     (if d = 0 then CHR ''0'' else if d = 1 then CHR ''1'' else if d = 2 then CHR ''2''
      else if d = 3 then CHR ''3'' else if d = 4 then CHR ''4'' else if d = 5 then CHR ''5''
      else if d = 6 then CHR ''6'' else if d = 7 then CHR ''7'' else if d = 8 then CHR ''8''
      else CHR ''9'')"

text \<open>The digits are produced from the least significant one, in front of those
  already written.\<close>

fun decimal_digits :: "nat \<Rightarrow> string \<Rightarrow> string" where
  "decimal_digits n written =
     (if n < 10 then digit_char n # written
      else decimal_digits (n div 10) (digit_char (n mod 10) # written))"

definition FormatInt :: "int \<Rightarrow> string" where
  "FormatInt i =
     (if 0 \<le> i then decimal_digits (nat i) [] else CHR ''-'' # decimal_digits (nat (- i)) [])"

definition PrepareDownloadHandler ::
  "uuid_draws \<Rightarrow> Config \<Rightarrow> SendService \<Rightarrow> Request \<Rightarrow> Response \<times> SendService" where
  "PrepareDownloadHandler uuid config sendService r =
     (if PIN config \<noteq> [] \<and> Query_Get r ''pin'' \<noteq> PIN config then
        (RespondError StatusUnauthorized ''Invalid PIN'', sendService)
      else
        let dummyFiles =
              [(uuid 0, \<lparr>ID = ''dummy-file-id'', FileName = ''dummy.txt'', Size = 12,
                         FileType = ''text/plain'', SHA256 = None, Preview = None,
                         Metadata = None, Legacy = False\<rparr>)]
        in (case Send_CreateSession (\<lambda>k. uuid (Suc k)) sendService dummyFiles of
              (Inl err, sendService') \<Rightarrow>
                (RespondError StatusConflict ''Blocked by another session'', sendService')
            | (Inr session, sendService') \<Rightarrow>
                (RespondJSON StatusOK
                   (ReceiveRequestJson
                      \<lparr>ReceiveRequestResponseDto.Info = ToInfoDto config,
                       SessionID = ActiveSendSession.SessionID session,
                       Files = ActiveSendSession.Files session\<rparr>),
                 sendService')))"


section \<open>Devices and the object store\<close>

text \<open>
  The registries hold pointers \<^verbatim>\<open>*model.Device\<close>, and the same device object is
  reachable from the listener's map, from the service's map and from the handlers it
  was handed to. Objects therefore live in a store: a pointer is an address, the
  store gives the object at each address, and \<open>free\<close> is the next address that
  \<^verbatim>\<open>&Device{...}\<close> hands out. The pointers of this code are never nil.
\<close>

type_synonym addr = nat

record store =
  cell :: "addr \<Rightarrow> Device"
  free :: addr

definition new_Device :: "store \<Rightarrow> Device \<Rightarrow> addr \<times> store" where
  "new_Device st d = (free st, st\<lparr>cell := (cell st)(free st := d), free := Suc (free st)\<rparr>)"

definition FromMulticastDto :: "MulticastDto \<Rightarrow> string \<Rightarrow> time \<Rightarrow> Device" where
  "FromMulticastDto dto ip now =
     \<lparr>Device.IP = ip, Version = MulticastDto.Version dto, Port = MulticastDto.Port dto,
      Alias = MulticastDto.Alias dto, Protocol = MulticastDto.Protocol dto,
      Fingerprint = MulticastDto.Fingerprint dto, DeviceModel = MulticastDto.DeviceModel dto,
      DeviceType = MulticastDto.DeviceType dto, Download = MulticastDto.Download dto,
      LastSeen = now, Available = True\<rparr>"

definition UpdateLastSeen :: "time \<Rightarrow> Device \<Rightarrow> Device" where
  "UpdateLastSeen now d = d\<lparr>LastSeen := now, Available := True\<rparr>"

definition IsStale :: "time \<Rightarrow> Device \<Rightarrow> duration \<Rightarrow> bool" where
  "IsStale now d staleThreshold = (now - LastSeen d > staleThreshold)"

section \<open>Multicast discovery (package discovery)\<close>

text \<open>
  A registered handler is a Go closure. \<open>ServiceUpdate\<close> is the closure that
  \<^verbatim>\<open>Service.Start\<close> registers with the listener (it calls \<^verbatim>\<open>s.updateDevice\<close>); every
  other closure is \<open>Callback k\<close>. What a method does beyond changing its own state
  is returned as a list of effects: \<open>Go h p\<close> is the goroutine \<^verbatim>\<open>go handler(device)\<close>,
  \<open>UDPWrite target dto\<close> is a datagram with the JSON of \<open>dto\<close> written to \<open>target\<close>,
  \<open>NewTicker d\<close> and \<open>TickerStop\<close> are the ticker of \<^verbatim>\<open>Discover\<close>.
\<close>

datatype handler = ServiceUpdate | Callback nat

datatype net_Addr = UDPAddr string int | OtherAddr string

fun addr_String :: "net_Addr \<Rightarrow> string" where
  "addr_String (UDPAddr ip port) = ip @ '':'' @ FormatInt port"
| "addr_String (OtherAddr a) = a"

datatype effect =
    Go handler addr
  | UDPWrite string MulticastDto
  | NewTicker duration
  | TickerStop

record MulticastConfig =
  MulticastAddr :: string
  Port :: int
  AnnounceTimeout :: duration
  ListenTimeout :: duration

abbreviation Second :: duration where "Second \<equiv> 1000000000"
abbreviation Minute :: duration where "Minute \<equiv> 60000000000"

definition DefaultMulticastConfig :: MulticastConfig where
  "DefaultMulticastConfig =
     \<lparr>MulticastAddr = ''224.0.0.167:53317'', Port = 53317,
      AnnounceTimeout = 2 * Second, ListenTimeout = 5 * Second\<rparr>"

record MulticastDiscovery =
  config :: MulticastConfig
  dto :: MulticastDto
  devices :: "(string \<times> addr) list"
  handlers :: "handler list"

definition MD_AddDeviceHandler :: "MulticastDiscovery \<Rightarrow> handler \<Rightarrow> MulticastDiscovery" where
  "MD_AddDeviceHandler md h =
     md\<lparr>MulticastDiscovery.handlers := MulticastDiscovery.handlers md @ [h]\<rparr>"


text \<open>Whether the network takes a datagram is the argument \<open>net\<close>: the step that
  fails, or none; \<open>resolves\<close> tells whether the configured multicast address
  resolves.\<close>

datatype udp_outcome = DialFails | WriteFails | WriteOk

datatype discovery_error =
    FailedToResolve | FailedToDial | FailedToSend | FailedToUnmarshal | UnexpectedAddressType


definition SendDiscoveryResponse ::
  "udp_outcome \<Rightarrow> MulticastDiscovery \<Rightarrow> net_Addr \<Rightarrow> discovery_error option \<times> effect list" where
  "SendDiscoveryResponse net md targetAddr =
     (let responseDto = (dto md)\<lparr>Announce := False\<rparr> in
      case net of
        DialFails \<Rightarrow> (Some FailedToDial, [])
      | WriteFails \<Rightarrow> (Some FailedToSend, [])
      | WriteOk \<Rightarrow> (None, [UDPWrite (addr_String targetAddr) responseDto]))"

definition MD_updateDevice ::
  "MulticastDiscovery \<Rightarrow> store \<Rightarrow> addr \<Rightarrow> time \<Rightarrow> MulticastDiscovery \<times> store \<times> effect list" where
  "MD_updateDevice md st device now =
     (let key = Device.Fingerprint (cell st device) in
      case map_of (MulticastDiscovery.devices md) key of
        Some existingDevice \<Rightarrow>
          (md, st\<lparr>cell := (cell st)(existingDevice := UpdateLastSeen now (cell st existingDevice))\<rparr>,
           [])
      | None \<Rightarrow>
          (md\<lparr>MulticastDiscovery.devices :=
                 AList.update key device (MulticastDiscovery.devices md)\<rparr>,
           st, map (\<lambda>h. Go h device) (MulticastDiscovery.handlers md)))"

text \<open>\<^verbatim>\<open>handlePacket\<close>: \<open>Unmarshal\<close> is the JSON decoder, \<open>now\<close> the clock reading taken
  by \<^verbatim>\<open>FromMulticastDto\<close> and \<^verbatim>\<open>UpdateLastSeen\<close>.\<close>

definition handlePacket ::
  "(string \<Rightarrow> MulticastDto option) \<Rightarrow> udp_outcome \<Rightarrow> time \<Rightarrow> MulticastDiscovery \<Rightarrow> store
     \<Rightarrow> string \<Rightarrow> net_Addr
     \<Rightarrow> discovery_error option \<times> MulticastDiscovery \<times> store \<times> effect list" where
  "handlePacket Unmarshal net now md st data a =
     (case Unmarshal data of
        None \<Rightarrow> (Some FailedToUnmarshal, md, st, [])
      | Some d \<Rightarrow>
          if MulticastDto.Fingerprint d = MulticastDto.Fingerprint (dto md) then (None, md, st, [])
          else
            (case a of
               OtherAddr x \<Rightarrow> (Some UnexpectedAddressType, md, st, [])
             | UDPAddr ip port \<Rightarrow>
                 let (device, st1) = new_Device st (FromMulticastDto d ip now);
                     (md2, st2, spawned) = MD_updateDevice md st1 device now
                 in if Announce d
                    then (None, md2, st2, spawned @ snd (SendDiscoveryResponse net md2 a))
                    else (None, md2, st2, spawned)))"

section \<open>Discovery service (package discovery)\<close>

record ServiceConfig =
  MulticastConfig :: MulticastConfig
  AnnounceInterval :: duration
  DeviceTimeout :: duration
  EnableAnnouncement :: bool

definition DefaultServiceConfig :: ServiceConfig where
  "DefaultServiceConfig =
     \<lparr>MulticastConfig = DefaultMulticastConfig, AnnounceInterval = 30 * Second,
      DeviceTimeout = 2 * Minute, EnableAnnouncement = True\<rparr>"

record Service =
  config :: ServiceConfig
  devices :: "(string \<times> addr) list"
  handlers :: "handler list"

definition NewService :: "ServiceConfig \<Rightarrow> Service" where
  "NewService c = \<lparr>Service.config = c, devices = [], handlers = []\<rparr>"

definition GetDevices :: "Service \<Rightarrow> store \<Rightarrow> time \<Rightarrow> addr list" where
  "GetDevices s st now =
     filter (\<lambda>device. \<not> IsStale now (cell st device) (DeviceTimeout (Service.config s)))
       (map snd (Service.devices s))"

definition GetDevice :: "Service \<Rightarrow> store \<Rightarrow> time \<Rightarrow> string \<Rightarrow> addr option" where
  "GetDevice s st now fingerprint =
     (case map_of (Service.devices s) fingerprint of
        Some device \<Rightarrow>
          if \<not> IsStale now (cell st device) (DeviceTimeout (Service.config s))
          then Some device else None
      | None \<Rightarrow> None)"

definition AddDeviceHandler :: "Service \<Rightarrow> handler \<Rightarrow> Service" where
  "AddDeviceHandler s h = s\<lparr>Service.handlers := Service.handlers s @ [h]\<rparr>"

definition updateDevice :: "Service \<Rightarrow> store \<Rightarrow> addr \<Rightarrow> time \<Rightarrow> Service \<times> store \<times> effect list" where
  "updateDevice s st device now =
     (case map_of (Service.devices s) (Device.Fingerprint (cell st device)) of
        Some existingDevice \<Rightarrow>
          (s, st\<lparr>cell := (cell st)(existingDevice := UpdateLastSeen now (cell st existingDevice))\<rparr>,
           [])
      | None \<Rightarrow>
          (s\<lparr>Service.devices :=
                AList.update (Device.Fingerprint (cell st device)) device (Service.devices s)\<rparr>,
           st, map (\<lambda>h. Go h device) (Service.handlers s)))"





section \<open>Concrete values for the worked instances\<close>

definition example_uuid :: uuid_draws where
  "example_uuid k = ''uuid-'' @ decimal_digits k []"

definition example_SplitHost :: "string \<Rightarrow> string" where
  "example_SplitHost hostport = takeWhile (\<lambda>c. c \<noteq> CHR '':'') hostport"

definition example_file :: FileDto where
  "example_file =
     \<lparr>ID = ''f1'', FileName = ''notes.txt'', Size = 12, FileType = ''text/plain'',
      SHA256 = None, Preview = None, Metadata = None, Legacy = False\<rparr>"

definition example_info :: InfoDto where
  "example_info =
     \<lparr>InfoDto.Alias = ''phone'', Version = ''2.1'', DeviceModel = None,
      DeviceType = ''mobile'', Fingerprint = ''fp-phone'', Download = False\<rparr>"

definition example_sender :: DeviceInfo where
  "example_sender =
     \<lparr>DeviceInfo.Alias = ''phone'', Version = ''2.1'', DeviceModel = None,
      DeviceType = ''mobile'', Fingerprint = ''fp-phone'', Port = 0, DownloadDir = [],
      IP = ''10.0.0.7'', Download = False, HttpsEnabled = False\<rparr>"

definition example_config :: Config where
  "example_config =
     \<lparr>Config.Alias = ''desk'', Port = 53317, HttpsEnabled = True,
      MulticastGroup = ''224.0.0.167'', DeviceModel = Some ''GoDevice'',
      DeviceType = DeviceTypeDesktop, CertificateHash = ''fp-desk'', PIN = ''1234'',
      DownloadDir = ''/srv/downloads''\<rparr>"

definition example_request :: PrepareUploadRequestDto where
  "example_request =
     \<lparr>PrepareUploadRequestDto.Info = example_info, Files = [(''f1'', example_file)],
      SendZipped = False, ForceBulk = False, TargetPath = [], KeepFolders = False,
      Token = []\<rparr>"

definition example_Decode :: "string \<Rightarrow> PrepareUploadRequestDto option" where
  "example_Decode body = (if body = ''{one file}'' then Some example_request else None)"

text \<open>A receive service holding the session that \<open>example_request\<close> creates, and an
  upload request that fits it.\<close>

definition example_session :: ActiveReceiveSession where
  "example_session =
     \<lparr>ActiveReceiveSession.SessionID = ''uuid-0'', Sender = example_sender,
      Files = [(''f1'', \<lparr>Dto = example_file, Token = ''uuid-1''\<rparr>)]\<rparr>"

definition example_receiving :: ReceiveService where
  "example_receiving = \<lparr>ReceiveService.currentSession = Some example_session\<rparr>"

definition example_upload :: Request where
  "example_upload =
     \<lparr>Method = ''POST'',
      Query = [(''sessionId'', [''uuid-0'']), (''fileId'', [''f1'']), (''token'', [''uuid-1''])],
      RemoteAddr = ''10.0.0.7:40000'', Body = ''Hello, World''\<rparr>"

definition example_prepare :: Request where
  "example_prepare =
     \<lparr>Method = ''POST'', Query = [(''pin'', [''1234''])], RemoteAddr = ''10.0.0.7:40000'',
      Body = ''{one file}''\<rparr>"

text \<open>A receive service whose pending file \<open>f1\<close> was declared under the name \<open>name\<close>.\<close>

definition example_receiving_named :: "string \<Rightarrow> ReceiveService" where
  "example_receiving_named name =
     \<lparr>ReceiveService.currentSession =
        Some \<lparr>ActiveReceiveSession.SessionID = ''uuid-0'', Sender = example_sender,
              Files = [(''f1'', \<lparr>Dto = example_file\<lparr>FileName := name\<rparr>, Token = ''uuid-1''\<rparr>)]\<rparr>\<rparr>"



text \<open>Discovery: this device (\<open>desk\<close>), a peer announcing itself from two addresses, and
  a registry that knows nothing yet.\<close>

definition example_local_dto :: MulticastDto where
  "example_local_dto =
     \<lparr>MulticastDto.Alias = ''desk'', Version = ''2.1'', DeviceModel = Some ''GoDevice'',
      DeviceType = ''desktop'', Fingerprint = ''fp-desk'', Port = 53317,
      Protocol = ''https'', Download = False, Announce = True\<rparr>"

definition example_peer_dto :: MulticastDto where
  "example_peer_dto =
     \<lparr>MulticastDto.Alias = ''phone'', Version = ''2.1'', DeviceModel = None,
      DeviceType = ''mobile'', Fingerprint = ''fp-phone'', Port = 53317,
      Protocol = ''https'', Download = False, Announce = True\<rparr>"

definition example_Unmarshal :: "string \<Rightarrow> MulticastDto option" where
  "example_Unmarshal data =
     (if data = ''{desk}'' then Some example_local_dto
      else if data = ''{phone}'' then Some example_peer_dto else None)"

definition example_md :: MulticastDiscovery where
  "example_md =
     \<lparr>MulticastDiscovery.config = DefaultMulticastConfig, dto = example_local_dto,
      devices = [], handlers = [ServiceUpdate]\<rparr>"

definition zero_Device :: Device where
  "zero_Device =
     \<lparr>Device.IP = [], Version = [], Port = 0, Alias = [], Protocol = [], Fingerprint = [],
      DeviceModel = None, DeviceType = [], Download = False, LastSeen = 0,
      Available = False\<rparr>"

definition example_store :: store where
  "example_store = \<lparr>cell = (\<lambda>a. zero_Device), free = 0\<rparr>"

definition example_service :: Service where
  "example_service = (NewService DefaultServiceConfig)\<lparr>Service.handlers := [Callback 0]\<rparr>"

text \<open>The peer is sighted at \<^verbatim>\<open>10.0.0.1\<close> at time \<open>t1\<close> and again at \<^verbatim>\<open>10.0.0.2\<close> at time
  \<open>t2\<close>; both device objects are handed to \<open>updateDevice\<close>.\<close>

definition example_two_sightings :: "time \<Rightarrow> time \<Rightarrow> Service \<times> store \<times> effect list" where
  "example_two_sightings t1 t2 =
     (let (first, st1) = new_Device example_store (FromMulticastDto example_peer_dto ''10.0.0.1'' t1);
          (s1, st2, fired1) = updateDevice example_service st1 first t1;
          (second, st3) = new_Device st2 (FromMulticastDto example_peer_dto ''10.0.0.2'' t2);
          (s2, st4, fired2) = updateDevice s1 st3 second t2
      in (s2, st4, fired1 @ fired2))"

text \<open>The registry after the first sighting at time \<open>t1\<close>, with the device object of
  a second sighting at time \<open>t2\<close> allocated but not yet handed over.\<close>

definition example_registry :: "time \<Rightarrow> time \<Rightarrow> Service \<times> store" where
  "example_registry t1 t2 =
     (let (first, st1) = new_Device example_store (FromMulticastDto example_peer_dto ''10.0.0.1'' t1);
          (s1, st2, fired1) = updateDevice example_service st1 first t1;
          (second, st3) = new_Device st2 (FromMulticastDto example_peer_dto ''10.0.0.2'' t2)
      in (s1, st3))"

section \<open>Session manager: exclusivity and auto-close\<close>

lemma delete_empty_iff:
  "(AList.delete k al = []) = (\<forall>k'. k' \<noteq> k \<longrightarrow> map_of al k' = None)"
  by (induction al) (auto simp: AList.delete_eq)

text \<open>
  Claim C2. On a send service and on a receive service alike, \<open>CreateSession\<close> on a
  manager that already holds a session returns the error "session already active"
  and leaves the manager, with its session and files, as it was. Of two
  \<open>CreateSession\<close> calls made one after the other on a manager that holds no session
  (the mutex admits no other interleaving), the first succeeds and installs its
  session, the second gets the error and changes nothing. The manager's state holds
  at most one session by its type.
\<close>

theorem createSession_exclusive:
  "(SendService.currentSession sA \<noteq> None \<longrightarrow>
      Send_CreateSession u sA fs = (Inl ''session already active'', sA)) \<and>
   (ReceiveService.currentSession rA \<noteq> None \<longrightarrow>
      Receive_CreateSession u rA sender fs = (Inl ''session already active'', rA)) \<and>
   (SendService.currentSession s0 = None \<longrightarrow>
      (case Send_CreateSession u1 s0 fs1 of (r1, s1) \<Rightarrow>
       case Send_CreateSession u2 s1 fs2 of (r2, s2) \<Rightarrow>
         r1 = Inr \<lparr>ActiveSendSession.SessionID = u1 0, Files = fs1\<rparr> \<and>
         SendService.currentSession s1 =
           Some \<lparr>ActiveSendSession.SessionID = u1 0, Files = fs1\<rparr> \<and>
         r2 = Inl ''session already active'' \<and> s2 = s1)) \<and>
   (ReceiveService.currentSession r0 = None \<longrightarrow>
      (case Receive_CreateSession u1 r0 sender1 fs1 of (r1, s1) \<Rightarrow>
       case Receive_CreateSession u2 s1 sender2 fs2 of (r2, s2) \<Rightarrow>
         (\<exists>session. r1 = Inr session \<and> ReceiveService.currentSession s1 = Some session \<and>
            ActiveReceiveSession.SessionID session = u1 0 \<and> Sender session = sender1 \<and>
            ActiveReceiveSession.Files session = session_files u1 1 fs1 []) \<and>
         r2 = Inl ''session already active'' \<and> s2 = s1))"
  by (simp add: Send_CreateSession_def Receive_CreateSession_def Let_def)

theorem createSession_exclusive_witness:
  "SendService.currentSession NewSendService = None \<and>
   ReceiveService.currentSession NewReceiveService = None \<and>
   ReceiveService.currentSession example_receiving \<noteq> None \<and>
   fst (Send_CreateSession example_uuid
          (snd (Send_CreateSession example_uuid NewSendService [(''f1'', example_file)]))
          [(''f2'', example_file)]) = Inl ''session already active'' \<and>
   fst (Receive_CreateSession example_uuid
          (snd (Receive_CreateSession example_uuid NewReceiveService example_sender
                  [(''f1'', example_file)]))
          example_sender [(''f2'', example_file)]) = Inl ''session already active'' \<and>
   Receive_CreateSession example_uuid example_receiving example_sender [(''f2'', example_file)]
     = (Inl ''session already active'', example_receiving)"
  using createSession_exclusive
    [where sA = "snd (Send_CreateSession example_uuid NewSendService [(''f1'', example_file)])"
      and rA = example_receiving and ?s0.0 = NewSendService and ?r0.0 = NewReceiveService
      and u = example_uuid and ?u1.0 = example_uuid and ?u2.0 = example_uuid
      and fs = "[(''f2'', example_file)]" and ?fs1.0 = "[(''f1'', example_file)]"
      and ?fs2.0 = "[(''f2'', example_file)]" and sender = example_sender
      and ?sender1.0 = example_sender and ?sender2.0 = example_sender]
  by (simp add: NewSendService_def NewReceiveService_def example_receiving_def
      Send_CreateSession_def split: prod.splits)

text \<open>
  Claim C4. \<open>RemoveFileFromSession\<close> on the session whose ID matches deletes the
  entry of that file and no other. If no entry is left, the session is cleared and
  \<open>GetSessionByID\<close> with that ID finds nothing; otherwise the session stays, with the
  remaining entries. In neither case does the service hold a session with no files.
\<close>

theorem removeFile_autoclose:
  assumes "ReceiveService.currentSession s = Some cur"
    and "ActiveReceiveSession.SessionID cur = sid"
  shows "let s' = RemoveFileFromSession s sid fid;
             rest = AList.delete fid (ActiveReceiveSession.Files cur) in
           map_of rest = (map_of (ActiveReceiveSession.Files cur))(fid := None) \<and>
           (rest = []) = (\<forall>k. k \<noteq> fid \<longrightarrow> map_of (ActiveReceiveSession.Files cur) k = None) \<and>
           (if rest = []
            then ReceiveService.currentSession s' = None \<and> Receive_GetSessionByID s' sid = None
            else ReceiveService.currentSession s' =
                   Some (cur\<lparr>ActiveReceiveSession.Files := rest\<rparr>) \<and>
                 Receive_GetSessionByID s' sid =
                   Some (cur\<lparr>ActiveReceiveSession.Files := rest\<rparr>)) \<and>
           (\<forall>cur'. ReceiveService.currentSession s' = Some cur' \<longrightarrow>
                    ActiveReceiveSession.Files cur' \<noteq> [])"
  using assms
  by (auto simp add: RemoveFileFromSession_def Receive_GetSessionByID_def Let_def
      AList.delete_conv' delete_empty_iff)

theorem removeFile_autoclose_witness:
  "ReceiveService.currentSession example_receiving = Some example_session \<and>
   ActiveReceiveSession.SessionID example_session = ''uuid-0'' \<and>
   ReceiveService.currentSession (RemoveFileFromSession example_receiving ''uuid-0'' ''f1'') = None \<and>
   Receive_GetSessionByID (RemoveFileFromSession example_receiving ''uuid-0'' ''f1'') ''uuid-0''
     = None"
  using removeFile_autoclose [of example_receiving example_session "''uuid-0''" "''f1''"]
  by (simp add: example_receiving_def example_session_def Let_def)

section \<open>Receive handlers: upload and prepare-upload\<close>

text \<open>
  Claim C1. Whatever \<open>UploadHandlerV2\<close> answers with a status other than 200, the
  receive service is left exactly as it was, so no file entry is removed and the
  session is not closed. For a POST request: a missing \<open>sessionId\<close>, \<open>fileId\<close> or
  \<open>token\<close> is answered 400; a session ID that is not the active session's, a peer
  host that differs from the sender IP recorded in the session, a file ID that is
  not pending, or a token that is not that file's token is answered 403; and when
  all of these match but the storage sink fails, the answer is 500 and the session
  still holds the file's entry.
\<close>

theorem upload_rejection_keeps_session:
  "(case UploadHandlerV2 SplitHost os cfg rs fs r of (resp, rs', fs') \<Rightarrow>
     let sid = Query_Get r ''sessionId''; fid = Query_Get r ''fileId'';
         tok = Query_Get r ''token''
     in
       (StatusCode resp \<noteq> StatusOK \<longrightarrow> rs' = rs) \<and>
       (Method r = ''POST'' \<and> (sid = [] \<or> fid = [] \<or> tok = []) \<longrightarrow>
          StatusCode resp = StatusBadRequest) \<and>
       (Method r = ''POST'' \<and> sid \<noteq> [] \<and> fid \<noteq> [] \<and> tok \<noteq> [] \<and>
        Receive_GetSessionByID rs sid = None \<longrightarrow> StatusCode resp = StatusForbidden) \<and>
       (\<forall>session. Method r = ''POST'' \<and> sid \<noteq> [] \<and> fid \<noteq> [] \<and> tok \<noteq> [] \<and>
          Receive_GetSessionByID rs sid = Some session \<longrightarrow>
            (SplitHost (RemoteAddr r) \<noteq> DeviceInfo.IP (Sender session) \<longrightarrow>
               StatusCode resp = StatusForbidden) \<and>
            (map_of (ActiveReceiveSession.Files session) fid = None \<longrightarrow>
               StatusCode resp = StatusForbidden) \<and>
            (\<forall>f. map_of (ActiveReceiveSession.Files session) fid = Some f \<and>
                 ActiveFile.Token f \<noteq> tok \<longrightarrow> StatusCode resp = StatusForbidden) \<and>
            (\<forall>f. SplitHost (RemoteAddr r) = DeviceInfo.IP (Sender session) \<and>
                 map_of (ActiveReceiveSession.Files session) fid = Some f \<and>
                 ActiveFile.Token f = tok \<and> os \<noteq> CopyOk \<longrightarrow>
                   StatusCode resp = StatusInternalServerError \<and>
                   ReceiveService.currentSession rs' = Some session \<and>
                   map_of (ActiveReceiveSession.Files session) fid = Some f)))"
proof (cases os)
  case CopyOk
  then show ?thesis
    by (auto simp add: UploadHandlerV2_def Let_def RespondError_def RespondJSON_def
        SaveStreamToFile_def Receive_GetSessionByID_def
        split: option.splits if_splits)
next
  case MkdirFails
  then show ?thesis
    by (auto simp add: UploadHandlerV2_def Let_def RespondError_def RespondJSON_def
        SaveStreamToFile_def Receive_GetSessionByID_def
        split: option.splits if_splits)
next
  case CreateFails
  then show ?thesis
    by (auto simp add: UploadHandlerV2_def Let_def RespondError_def RespondJSON_def
        SaveStreamToFile_def Receive_GetSessionByID_def
        split: option.splits if_splits)
next
  case (CopyFails written removed)
  then show ?thesis
    by (auto simp add: UploadHandlerV2_def Let_def RespondError_def RespondJSON_def
        SaveStreamToFile_def Receive_GetSessionByID_def
        split: option.splits if_splits)
qed

theorem upload_rejection_keeps_session_witness:
  "(let out = UploadHandlerV2 example_SplitHost CopyOk example_config example_receiving Map.empty
               (example_upload\<lparr>Query := [(''sessionId'', [''uuid-0'']), (''fileId'', [''f1''])]\<rparr>)
    in StatusCode (fst out) = StatusBadRequest \<and> fst (snd out) = example_receiving) \<and>
   (let out = UploadHandlerV2 example_SplitHost CopyOk example_config example_receiving Map.empty
               (example_upload\<lparr>Query := [(''sessionId'', [''uuid-9'']), (''fileId'', [''f1'']),
                                         (''token'', [''uuid-1''])]\<rparr>)
    in StatusCode (fst out) = StatusForbidden \<and> fst (snd out) = example_receiving) \<and>
   (let out = UploadHandlerV2 example_SplitHost CopyOk example_config example_receiving Map.empty
               (example_upload\<lparr>RemoteAddr := ''10.0.0.8:40000''\<rparr>)
    in StatusCode (fst out) = StatusForbidden \<and> fst (snd out) = example_receiving) \<and>
   (let out = UploadHandlerV2 example_SplitHost CopyOk example_config example_receiving Map.empty
               (example_upload\<lparr>Query := [(''sessionId'', [''uuid-0'']), (''fileId'', [''f1'']),
                                         (''token'', [''uuid-2''])]\<rparr>)
    in StatusCode (fst out) = StatusForbidden \<and> fst (snd out) = example_receiving) \<and>
   (let out = UploadHandlerV2 example_SplitHost CopyOk example_config example_receiving Map.empty
               (example_upload\<lparr>Query := [(''sessionId'', [''uuid-0'']), (''fileId'', [''f2'']),
                                         (''token'', [''uuid-1''])]\<rparr>)
    in StatusCode (fst out) = StatusForbidden \<and> fst (snd out) = example_receiving) \<and>
   (let out = UploadHandlerV2 example_SplitHost CreateFails example_config example_receiving
               Map.empty example_upload
    in StatusCode (fst out) = StatusInternalServerError \<and> fst (snd out) = example_receiving)"
  using
    upload_rejection_keeps_session [where SplitHost = example_SplitHost and os = CopyOk
      and cfg = example_config and rs = example_receiving and fs = Map.empty and r =
      "example_upload\<lparr>Query := [(''sessionId'', [''uuid-0'']), (''fileId'', [''f1''])]\<rparr>"]
    upload_rejection_keeps_session [where SplitHost = example_SplitHost and os = CopyOk
      and cfg = example_config and rs = example_receiving and fs = Map.empty and r =
      "example_upload\<lparr>Query := [(''sessionId'', [''uuid-9'']), (''fileId'', [''f1'']),
                                         (''token'', [''uuid-1''])]\<rparr>"]
    upload_rejection_keeps_session [where SplitHost = example_SplitHost and os = CopyOk
      and cfg = example_config and rs = example_receiving and fs = Map.empty and r =
      "example_upload\<lparr>RemoteAddr := ''10.0.0.8:40000''\<rparr>"]
    upload_rejection_keeps_session [where SplitHost = example_SplitHost and os = CopyOk
      and cfg = example_config and rs = example_receiving and fs = Map.empty and r =
      "example_upload\<lparr>Query := [(''sessionId'', [''uuid-0'']), (''fileId'', [''f1'']),
                                         (''token'', [''uuid-2''])]\<rparr>"]
    upload_rejection_keeps_session [where SplitHost = example_SplitHost and os = CopyOk
      and cfg = example_config and rs = example_receiving and fs = Map.empty and r =
      "example_upload\<lparr>Query := [(''sessionId'', [''uuid-0'']), (''fileId'', [''f2'']),
                                         (''token'', [''uuid-1''])]\<rparr>"]
    upload_rejection_keeps_session [where SplitHost = example_SplitHost and os = CreateFails
      and cfg = example_config and rs = example_receiving and fs = Map.empty
      and r = example_upload]
  by (simp add: Let_def example_upload_def example_receiving_def example_session_def
      example_sender_def example_SplitHost_def Query_Get_def Receive_GetSessionByID_def
      split: prod.splits)

text \<open>How the two loops over a file map with distinct keys come out.\<close>

lemma update_fresh_key: "k \<notin> fst ` set al \<Longrightarrow> AList.update k v al = al @ [(k, v)]"
  by (induction al) auto

lemma session_files_distinct:
  "distinct (map fst fs) \<Longrightarrow> fst ` set fs \<inter> fst ` set acc = {} \<Longrightarrow>
   session_files u n fs acc =
     acc @ map (\<lambda>(k, (fileId, fileDto)). (fileId, \<lparr>Dto = fileDto, Token = u k\<rparr>))
             (List.enumerate n fs)"
proof (induction fs arbitrary: n acc)
  case Nil
  then show ?case by simp
next
  case (Cons f fs)
  obtain fileId fileDto where f: "f = (fileId, fileDto)" by (cases f)
  have fresh: "fileId \<notin> fst ` set acc" using Cons.prems(2) f by auto
  have disj: "fst ` set fs \<inter> fst ` set (acc @ [(fileId, \<lparr>Dto = fileDto, Token = u n\<rparr>)]) = {}"
    using Cons.prems f by auto
  show ?case
    using Cons.IH [OF _ disj, of "Suc n"] Cons.prems(1) fresh
    by (simp add: f update_fresh_key)
qed

lemma response_tokens_distinct:
  "distinct (map fst fs) \<Longrightarrow> fst ` set fs \<inter> fst ` set acc = {} \<Longrightarrow>
   response_tokens fs acc = acc @ map (\<lambda>(fileID, af). (fileID, ActiveFile.Token af)) fs"
proof (induction fs arbitrary: acc)
  case Nil
  then show ?case by simp
next
  case (Cons f fs)
  obtain fileID af where f: "f = (fileID, af)" by (cases f)
  have fresh: "fileID \<notin> fst ` set acc" using Cons.prems(2) f by auto
  have disj: "fst ` set fs \<inter> fst ` set (acc @ [(fileID, ActiveFile.Token af)]) = {}"
    using Cons.prems f by auto
  show ?case
    using Cons.IH [OF _ disj] Cons.prems(1) fresh
    by (simp add: f update_fresh_key)
qed

lemma enumerate_keys:
  "map (fst \<circ> (\<lambda>(k, (fileId, fileDto)). (fileId, g k fileDto))) (List.enumerate n fs) = map fst fs"
  by (induction fs arbitrary: n) auto

lemma session_files_keys:
  "distinct (map fst fs) \<Longrightarrow> map fst (session_files u n fs []) = map fst fs"
  by (simp add: session_files_distinct enumerate_keys)

lemma tokens_of_session_files:
  "distinct (map fst fs) \<Longrightarrow>
   response_tokens (session_files u n fs []) [] =
     map (\<lambda>(k, (fileId, fileDto)). (fileId, u k)) (List.enumerate n fs)"
proof -
  assume d: "distinct (map fst fs)"
  have "distinct (map fst (session_files u n fs []))"
    using d by (simp add: session_files_keys)
  then have "response_tokens (session_files u n fs []) [] =
      map (\<lambda>(fileID, af). (fileID, ActiveFile.Token af)) (session_files u n fs [])"
    by (simp add: response_tokens_distinct)
  also have "\<dots> = map (\<lambda>(k, (fileId, fileDto)). (fileId, u k)) (List.enumerate n fs)"
    using d by (simp add: session_files_distinct case_prod_beta)
  finally show ?thesis .
qed

lemma tokens_of_enumerated:
  "distinct (map fst fs) \<Longrightarrow>
   response_tokens
     (map (\<lambda>(k, (fileId, fileDto)). (fileId, \<lparr>Dto = fileDto, Token = u k\<rparr>))
        (List.enumerate n fs)) [] =
     map (\<lambda>(k, (fileId, fileDto)). (fileId, u k)) (List.enumerate n fs)"
  using tokens_of_session_files [of fs u n] by (simp add: session_files_distinct)

text \<open>
  Claim C3. For a POST request, \<open>PrepareUploadHandlerV2\<close> answers 401 when a PIN is
  configured and the \<open>pin\<close> query parameter differs from it; otherwise 409 when a
  session is active; otherwise 400 when the body does not decode or names no file;
  and otherwise 200: it installs a receive session whose ID is the first draw of
  the identifier source and whose sender IP is the host of the peer address, and
  the response carries that session ID and, for exactly the requested file IDs, the
  token drawn for each file (the \<open>k\<close>-th file gets the \<open>k\<close>-th draw after the session
  ID), the same token the session stores for it. The keys of the request's file map
  are distinct, as the keys of a Go map are. Every answer but 200 leaves the service
  as it was.
\<close>

theorem prepare_upload_outcomes:
  assumes "Method r = ''POST''"
  shows "case PrepareUploadHandlerV2 SplitHost Decode uuid cfg rs r of (resp, rs') \<Rightarrow>
     let badPin = (PIN cfg \<noteq> [] \<and> Query_Get r ''pin'' \<noteq> PIN cfg);
         busy = (ReceiveService.currentSession rs \<noteq> None)
     in
       (badPin \<longrightarrow> StatusCode resp = StatusUnauthorized \<and> rs' = rs) \<and>
       (\<not> badPin \<and> busy \<longrightarrow> StatusCode resp = StatusConflict \<and> rs' = rs) \<and>
       (\<not> badPin \<and> \<not> busy \<and> Decode (Body r) = None \<longrightarrow>
          StatusCode resp = StatusBadRequest \<and> rs' = rs) \<and>
       (\<forall>d. \<not> badPin \<and> \<not> busy \<and> Decode (Body r) = Some d \<and>
            PrepareUploadRequestDto.Files d = [] \<longrightarrow>
              StatusCode resp = StatusBadRequest \<and> rs' = rs) \<and>
       (\<forall>d. \<not> badPin \<and> \<not> busy \<and> Decode (Body r) = Some d \<and>
            PrepareUploadRequestDto.Files d \<noteq> [] \<and>
            distinct (map fst (PrepareUploadRequestDto.Files d)) \<longrightarrow>
              StatusCode resp = StatusOK \<and>
              (\<exists>session tokens.
                 ReceiveService.currentSession rs' = Some session \<and>
                 ActiveReceiveSession.SessionID session = uuid 0 \<and>
                 DeviceInfo.IP (Sender session) = SplitHost (RemoteAddr r) \<and>
                 ActiveReceiveSession.Files session =
                   map (\<lambda>(k, (fileId, fileDto)). (fileId, \<lparr>Dto = fileDto, Token = uuid k\<rparr>))
                     (List.enumerate 1 (PrepareUploadRequestDto.Files d)) \<and>
                 Payload resp =
                   PrepareUploadJson \<lparr>PrepareUploadResponseDto.SessionID = uuid 0,
                     Files = tokens, Token = []\<rparr> \<and>
                 tokens = map (\<lambda>(k, (fileId, fileDto)). (fileId, uuid k))
                            (List.enumerate 1 (PrepareUploadRequestDto.Files d)) \<and>
                 map fst tokens = map fst (PrepareUploadRequestDto.Files d)))"
  using assms
  by (auto simp add: PrepareUploadHandlerV2_def Let_def RespondError_def RespondJSON_def
      Receive_GetSession_def Receive_CreateSession_def session_files_distinct
      tokens_of_enumerated enumerate_keys
      split: option.splits)

theorem prepare_upload_outcomes_witness:
  "Method example_prepare = ''POST'' \<and>
   StatusCode (fst (PrepareUploadHandlerV2 example_SplitHost example_Decode example_uuid
      example_config NewReceiveService (example_prepare\<lparr>Query := []\<rparr>))) = StatusUnauthorized \<and>
   StatusCode (fst (PrepareUploadHandlerV2 example_SplitHost example_Decode example_uuid
      example_config example_receiving example_prepare)) = StatusConflict \<and>
   StatusCode (fst (PrepareUploadHandlerV2 example_SplitHost example_Decode example_uuid
      example_config NewReceiveService (example_prepare\<lparr>Body := ''{''\<rparr>))) = StatusBadRequest \<and>
   StatusCode (fst (PrepareUploadHandlerV2 example_SplitHost
      (\<lambda>body. Some (example_request\<lparr>PrepareUploadRequestDto.Files := []\<rparr>)) example_uuid
      example_config NewReceiveService example_prepare)) = StatusBadRequest \<and>
   PrepareUploadHandlerV2 example_SplitHost example_Decode example_uuid
      example_config NewReceiveService example_prepare =
     (RespondJSON StatusOK
        (PrepareUploadJson \<lparr>PrepareUploadResponseDto.SessionID = ''uuid-0'',
           Files = [(''f1'', ''uuid-1'')], Token = []\<rparr>),
      example_receiving)"
  using
    prepare_upload_outcomes [where r = "example_prepare\<lparr>Query := []\<rparr>"
      and SplitHost = example_SplitHost and Decode = example_Decode and uuid = example_uuid
      and cfg = example_config and rs = NewReceiveService]
    prepare_upload_outcomes [where r = example_prepare
      and SplitHost = example_SplitHost and Decode = example_Decode and uuid = example_uuid
      and cfg = example_config and rs = example_receiving]
    prepare_upload_outcomes [where r = "example_prepare\<lparr>Body := ''{''\<rparr>"
      and SplitHost = example_SplitHost and Decode = example_Decode and uuid = example_uuid
      and cfg = example_config and rs = NewReceiveService]
    prepare_upload_outcomes [where r = example_prepare and SplitHost = example_SplitHost
      and Decode = "\<lambda>body. Some (example_request\<lparr>PrepareUploadRequestDto.Files := []\<rparr>)"
      and uuid = example_uuid and cfg = example_config and rs = NewReceiveService]
    prepare_upload_outcomes [where r = example_prepare
      and SplitHost = example_SplitHost and Decode = example_Decode and uuid = example_uuid
      and cfg = example_config and rs = NewReceiveService]
  by (simp add: PrepareUploadHandlerV2_def Let_def RespondError_def RespondJSON_def
      Receive_GetSession_def Receive_CreateSession_def
      example_prepare_def example_config_def example_Decode_def example_request_def
      example_receiving_def example_session_def example_sender_def example_info_def
      example_uuid_def example_SplitHost_def NewReceiveService_def Query_Get_def
      digit_char_def)

section \<open>Where an accepted upload is written\<close>

lemma upload_accept_eq:
  assumes "Method r = ''POST''"
    and "Query_Get r ''sessionId'' \<noteq> []" and "Query_Get r ''fileId'' \<noteq> []"
    and "Query_Get r ''token'' \<noteq> []"
    and "Receive_GetSessionByID rs (Query_Get r ''sessionId'') = Some session"
    and "SplitHost (RemoteAddr r) = DeviceInfo.IP (Sender session)"
    and "map_of (ActiveReceiveSession.Files session) (Query_Get r ''fileId'') = Some f"
    and "ActiveFile.Token f = Query_Get r ''token''"
  shows "UploadHandlerV2 SplitHost CopyOk cfg rs fs r =
           (RespondJSON StatusOK NullJson,
            RemoveFileFromSession rs (Query_Get r ''sessionId'') (Query_Get r ''fileId''),
            fs(filepath_Join [Config.DownloadDir cfg, FileName (Dto f)] \<mapsto> Body r))"
  using assms
  by (simp add: UploadHandlerV2_def Let_def SaveStreamToFile_def del: filepath_Join.simps)

lemma upload_status_OK_D:
  assumes "StatusCode (fst (UploadHandlerV2 SplitHost os cfg rs fs r)) = StatusOK"
  shows "os = CopyOk \<and> Method r = ''POST'' \<and> Query_Get r ''sessionId'' \<noteq> [] \<and>
         Query_Get r ''fileId'' \<noteq> [] \<and> Query_Get r ''token'' \<noteq> [] \<and>
         (case Receive_GetSessionByID rs (Query_Get r ''sessionId'') of
            None \<Rightarrow> False
          | Some session \<Rightarrow>
              SplitHost (RemoteAddr r) = DeviceInfo.IP (Sender session) \<and>
              (case map_of (ActiveReceiveSession.Files session) (Query_Get r ''fileId'') of
                 None \<Rightarrow> False
               | Some f \<Rightarrow> ActiveFile.Token f = Query_Get r ''token''))"
proof -
  let ?sid = "Query_Get r ''sessionId''" and ?fid = "Query_Get r ''fileId''"
  have m: "Method r = ''POST''"
    using assms by (simp add: UploadHandlerV2_def RespondError_def RespondJSON_def split: if_splits)
  have q: "?sid \<noteq> [] \<and> ?fid \<noteq> [] \<and> Query_Get r ''token'' \<noteq> []"
    using assms m
    by (simp add: UploadHandlerV2_def Let_def RespondError_def RespondJSON_def split: if_splits)
  obtain session where s: "Receive_GetSessionByID rs ?sid = Some session"
    using assms m q
    by (cases "Receive_GetSessionByID rs ?sid")
       (simp_all add: UploadHandlerV2_def Let_def RespondError_def RespondJSON_def)
  have ip: "SplitHost (RemoteAddr r) = DeviceInfo.IP (Sender session)"
    using assms m q s
    by (simp add: UploadHandlerV2_def Let_def RespondError_def RespondJSON_def split: if_splits)
  obtain f where f: "map_of (ActiveReceiveSession.Files session) ?fid = Some f"
    using assms m q s ip
    by (cases "map_of (ActiveReceiveSession.Files session) ?fid")
       (simp_all add: UploadHandlerV2_def Let_def RespondError_def RespondJSON_def)
  have t: "ActiveFile.Token f = Query_Get r ''token''"
    using assms m q s ip f
    by (simp add: UploadHandlerV2_def Let_def RespondError_def RespondJSON_def split: if_splits)
  have os: "os = CopyOk"
    using assms m q s ip f t
    by (cases os)
       (simp_all add: UploadHandlerV2_def Let_def RespondError_def RespondJSON_def
          SaveStreamToFile_def del: filepath_Join.simps)
  show ?thesis using m q s ip f t os by simp
qed

lemma split_sep_no_sep: "CHR ''/'' \<notin> set e \<Longrightarrow> split_sep e = [e]"
  by (induction e) auto

lemma split_sep_at_sep:
  "CHR ''/'' \<notin> set e \<Longrightarrow> split_sep (e @ CHR ''/'' # rest) = e # split_sep rest"
  by (induction e) auto

lemma join_escapes:
  assumes "CHR ''/'' \<notin> set d" "d \<noteq> []" "d \<noteq> ''.''" "d \<noteq> ''..''"
    and "CHR ''/'' \<notin> set x" "x \<noteq> []" "x \<noteq> ''.''" "x \<noteq> ''..''"
  shows "filepath_Join [CHR ''/'' # d, ''../'' @ x] = CHR ''/'' # x"
proof -
  have "split_sep (CHR ''/'' # d @ CHR ''/'' # ''../'' @ x) = [[], d, ''..'', x]"
    using assms split_sep_at_sep [of d "''../'' @ x"] split_sep_at_sep [of "''..''" x]
      split_sep_no_sep [of x]
    by simp
  then show ?thesis
    using assms by (simp add: filepath_Clean_def)
qed

lemma escape_not_under:
  assumes "CHR ''/'' \<notin> set x"
  shows "\<not> prefix (CHR ''/'' # d @ ''/'') (CHR ''/'' # x)"
proof
  assume "prefix (CHR ''/'' # d @ ''/'') (CHR ''/'' # x)"
  then have "prefix (d @ ''/'') x" by simp
  then have "set (d @ ''/'') \<subseteq> set x" by (rule set_mono_prefix)
  then show False using assms by auto
qed

lemma declared_Dto:
  "map_of (map (\<lambda>(k, (fileId, fileDto)). (fileId, \<lparr>Dto = fileDto, Token = u k\<rparr>))
             (List.enumerate n fs)) fid = Some f \<Longrightarrow>
   map_of fs fid = Some (Dto f)"
  by (induction fs arbitrary: n) (auto split: if_splits)

text \<open>
  Claim C10 (as amended). For every accepted \<open>/upload\<close> (status 200) the body is written
  to exactly \<^verbatim>\<open>filepath.Join(DownloadDir, FileName)\<close>, where \<open>FileName\<close> is the name
  held by the session's entry for the requested file ID, which is the name declared
  for that ID in the prepare-upload request the session was made from; the name is
  not sanitised. In particular, with a download directory \<^verbatim>\<open>/d\<close> and a declared name
  \<^verbatim>\<open>../x\<close> (\<open>d\<close> and \<open>x\<close> single path elements) the file is written to \<^verbatim>\<open>/x\<close>, outside
  the download directory.
\<close>

theorem upload_destination:
  assumes "StatusCode (fst (UploadHandlerV2 SplitHost os cfg rs fs r)) = StatusOK"
  shows "\<exists>session f.
     Receive_GetSessionByID rs (Query_Get r ''sessionId'') = Some session \<and>
     map_of (ActiveReceiveSession.Files session) (Query_Get r ''fileId'') = Some f \<and>
     snd (snd (UploadHandlerV2 SplitHost os cfg rs fs r)) =
       fs(filepath_Join [Config.DownloadDir cfg, FileName (Dto f)] \<mapsto> Body r) \<and>
     (\<forall>declared u n.
        ActiveReceiveSession.Files session =
          map (\<lambda>(k, (fileId, fileDto)). (fileId, \<lparr>Dto = fileDto, Token = u k\<rparr>))
            (List.enumerate n declared) \<longrightarrow>
        map_of declared (Query_Get r ''fileId'') = Some (Dto f)) \<and>
     (\<forall>d x.
        Config.DownloadDir cfg = CHR ''/'' # d \<and> FileName (Dto f) = ''../'' @ x \<and>
        CHR ''/'' \<notin> set d \<and> d \<noteq> [] \<and> d \<noteq> ''.'' \<and> d \<noteq> ''..'' \<and>
        CHR ''/'' \<notin> set x \<and> x \<noteq> [] \<and> x \<noteq> ''.'' \<and> x \<noteq> ''..'' \<longrightarrow>
          snd (snd (UploadHandlerV2 SplitHost os cfg rs fs r)) = fs(CHR ''/'' # x \<mapsto> Body r) \<and>
          \<not> prefix (Config.DownloadDir cfg @ ''/'') (CHR ''/'' # x))"
proof -
  let ?sid = "Query_Get r ''sessionId''" and ?fid = "Query_Get r ''fileId''"
  note D = upload_status_OK_D [OF assms]
  from D obtain session where s: "Receive_GetSessionByID rs ?sid = Some session"
    by (cases "Receive_GetSessionByID rs ?sid") simp_all
  from D s have ip: "SplitHost (RemoteAddr r) = DeviceInfo.IP (Sender session)" by simp
  from D s obtain f where f: "map_of (ActiveReceiveSession.Files session) ?fid = Some f"
    by (cases "map_of (ActiveReceiveSession.Files session) ?fid") simp_all
  from D s f have t: "ActiveFile.Token f = Query_Get r ''token''" by simp
  from D have os: "os = CopyOk" by simp
  have eq: "snd (snd (UploadHandlerV2 SplitHost os cfg rs fs r)) =
      fs(filepath_Join [Config.DownloadDir cfg, FileName (Dto f)] \<mapsto> Body r)"
    using upload_accept_eq [of r rs session SplitHost f cfg fs] D s ip f t os by simp
  have decl: "\<forall>declared u n.
        ActiveReceiveSession.Files session =
          map (\<lambda>(k, (fileId, fileDto)). (fileId, \<lparr>Dto = fileDto, Token = u k\<rparr>))
            (List.enumerate n declared) \<longrightarrow>
        map_of declared ?fid = Some (Dto f)"
    using f declared_Dto by metis
  have esc: "\<forall>d x.
        Config.DownloadDir cfg = CHR ''/'' # d \<and> FileName (Dto f) = ''../'' @ x \<and>
        CHR ''/'' \<notin> set d \<and> d \<noteq> [] \<and> d \<noteq> ''.'' \<and> d \<noteq> ''..'' \<and>
        CHR ''/'' \<notin> set x \<and> x \<noteq> [] \<and> x \<noteq> ''.'' \<and> x \<noteq> ''..'' \<longrightarrow>
          snd (snd (UploadHandlerV2 SplitHost os cfg rs fs r)) = fs(CHR ''/'' # x \<mapsto> Body r) \<and>
          \<not> prefix (Config.DownloadDir cfg @ ''/'') (CHR ''/'' # x)"
  proof (intro allI impI)
    fix d x
    assume a: "Config.DownloadDir cfg = CHR ''/'' # d \<and> FileName (Dto f) = ''../'' @ x \<and>
        CHR ''/'' \<notin> set d \<and> d \<noteq> [] \<and> d \<noteq> ''.'' \<and> d \<noteq> ''..'' \<and>
        CHR ''/'' \<notin> set x \<and> x \<noteq> [] \<and> x \<noteq> ''.'' \<and> x \<noteq> ''..''"
    then have j: "filepath_Join [Config.DownloadDir cfg, FileName (Dto f)] = CHR ''/'' # x"
      using join_escapes [of d x] by simp
    have "\<not> prefix (CHR ''/'' # d @ ''/'') (CHR ''/'' # x)"
      using a escape_not_under [of x d] by simp
    then show "snd (snd (UploadHandlerV2 SplitHost os cfg rs fs r)) = fs(CHR ''/'' # x \<mapsto> Body r) \<and>
          \<not> prefix (Config.DownloadDir cfg @ ''/'') (CHR ''/'' # x)"
      using eq j a by simp
  qed
  show ?thesis using s f eq decl esc by blast
qed

theorem upload_destination_witness:
  "(let out = UploadHandlerV2 example_SplitHost CopyOk
                (example_config\<lparr>Config.DownloadDir := ''/downloads''\<rparr>)
                (example_receiving_named ''../x'') Map.empty example_upload
    in StatusCode (fst out) = StatusOK \<and> snd (snd out) = [''/x'' \<mapsto> ''Hello, World'']) \<and>
   \<not> prefix ''/downloads/'' ''/x''"
  using upload_destination [where SplitHost = example_SplitHost and os = CopyOk
      and cfg = "example_config\<lparr>Config.DownloadDir := ''/downloads''\<rparr>"
      and rs = "example_receiving_named ''../x''" and fs = Map.empty and r = example_upload]
  by (simp add: UploadHandlerV2_def Let_def RespondJSON_def SaveStreamToFile_def
      Receive_GetSessionByID_def Query_Get_def filepath_Clean_def
      example_receiving_named_def example_upload_def example_sender_def example_SplitHost_def
      example_file_def example_config_def)

text \<open>
  The claim as first stated says that any declared name with a path separator lands
  outside the download directory. A name whose separators only lead downwards is
  joined below it: \<^verbatim>\<open>sub/x.txt\<close> under \<^verbatim>\<open>/srv/downloads\<close> is written to
  \<^verbatim>\<open>/srv/downloads/sub/x.txt\<close>.
\<close>

theorem upload_separator_name_stays_inside:
  "(let out = UploadHandlerV2 example_SplitHost CopyOk example_config
                (example_receiving_named ''sub/x.txt'') Map.empty example_upload
    in StatusCode (fst out) = StatusOK \<and>
       snd (snd out) = [''/srv/downloads/sub/x.txt'' \<mapsto> ''Hello, World'']) \<and>
   CHR ''/'' \<in> set ''sub/x.txt'' \<and>
   prefix (Config.DownloadDir example_config @ ''/'') ''/srv/downloads/sub/x.txt''"
  by (simp add: UploadHandlerV2_def Let_def RespondJSON_def SaveStreamToFile_def
      Receive_GetSessionByID_def Query_Get_def filepath_Clean_def
      example_receiving_named_def example_upload_def example_sender_def example_SplitHost_def
      example_file_def example_config_def)

section \<open>Download handler\<close>




section \<open>Discovery: the listener and the registry\<close>

text \<open>
  Claim C5. When \<open>handlePacket\<close> receives a datagram that decodes to a discovery message
  whose fingerprint is the local device's own, it returns without an error and
  without doing anything: the listener's registry and every device object are as
  before, no handler goroutine is started (so the service's registry is not
  touched either) and no unicast response is written.
\<close>

theorem handlePacket_self_suppression:
  assumes "Unmarshal data = Some d"
    and "MulticastDto.Fingerprint d = MulticastDto.Fingerprint (dto md)"
  shows "handlePacket Unmarshal net now md st data a = (None, md, st, [])"
  using assms by (simp add: handlePacket_def)

theorem handlePacket_self_suppression_witness:
  "example_Unmarshal ''{desk}'' = Some example_local_dto \<and>
   MulticastDto.Fingerprint example_local_dto = MulticastDto.Fingerprint (dto example_md) \<and>
   handlePacket example_Unmarshal WriteOk 100 example_md example_store ''{desk}''
     (UDPAddr ''10.0.0.5'' 53317) = (None, example_md, example_store, []) \<and>
   fst (snd (handlePacket example_Unmarshal WriteOk 100 example_md example_store ''{phone}''
     (UDPAddr ''10.0.0.1'' 53317))) \<noteq> example_md"
  using handlePacket_self_suppression [of example_Unmarshal "''{desk}''" example_local_dto
      example_md WriteOk 100 example_store "UDPAddr ''10.0.0.5'' 53317"]
  by (simp add: example_Unmarshal_def example_md_def example_local_dto_def example_peer_dto_def
      handlePacket_def new_Device_def FromMulticastDto_def MD_updateDevice_def
      example_store_def Let_def split: prod.splits)

text \<open>
  Claim C6 (as amended). Two sightings with the same fingerprint, the second from a
  different source IP, handed to \<open>updateDevice\<close> of a service that did not know the
  fingerprint, leave exactly one registry entry for it, pointing to the device
  object of the first sighting. The repeat sighting changes only that object's
  last-seen time and availability: every other field, the IP among them, stays as
  first seen. The handlers are started for the first sighting only.
\<close>

theorem upsert_dedup:
  assumes "Device.Fingerprint (cell st a1) = fp" and "Device.Fingerprint (cell st a2) = fp"
    and "map_of (Service.devices s) fp = None"
  shows "case updateDevice s st a1 now1 of (s1, st1, fired1) \<Rightarrow>
         case updateDevice s1 st1 a2 now2 of (s2, st2, fired2) \<Rightarrow>
           Service.devices s1 = Service.devices s @ [(fp, a1)] \<and>
           Service.devices s2 = Service.devices s1 \<and>
           filter (\<lambda>entry. fst entry = fp) (Service.devices s2) = [(fp, a1)] \<and>
           st1 = st \<and>
           cell st2 = (cell st)(a1 := (cell st a1)\<lparr>LastSeen := now2, Available := True\<rparr>) \<and>
           Device.IP (cell st2 a1) = Device.IP (cell st a1) \<and>
           fired1 = map (\<lambda>h. Go h a1) (Service.handlers s) \<and> fired2 = []"
proof -
  have fresh: "fp \<notin> fst ` set (Service.devices s)"
    using assms(3) by (simp add: map_of_eq_None_iff)
  then have none: "filter (\<lambda>entry. fst entry = fp) (Service.devices s) = []"
    by (auto simp add: filter_empty_conv)
  let ?s1 = "s\<lparr>Service.devices := Service.devices s @ [(fp, a1)]\<rparr>"
  have first: "updateDevice s st a1 now1 = (?s1, st, map (\<lambda>h. Go h a1) (Service.handlers s))"
    using assms(1,3) fresh by (simp add: updateDevice_def update_fresh_key)
  have known: "map_of (Service.devices ?s1) fp = Some a1"
    using assms(3) by (simp add: map_add_def)
  have second: "updateDevice ?s1 st a2 now2 =
      (?s1, st\<lparr>cell := (cell st)(a1 := UpdateLastSeen now2 (cell st a1))\<rparr>, [])"
    using assms(2) known by (simp add: updateDevice_def)
  show ?thesis
    using none by (simp add: first second UpdateLastSeen_def)
qed

theorem upsert_dedup_witness:
  "(let st = snd (new_Device
                   (snd (new_Device example_store (FromMulticastDto example_peer_dto ''10.0.0.1'' 100)))
                   (FromMulticastDto example_peer_dto ''10.0.0.2'' 200));
        (s1, st1, fired1) = updateDevice example_service st 0 100;
        (s2, st2, fired2) = updateDevice s1 st1 1 200
    in Device.Fingerprint (cell st 0) = ''fp-phone'' \<and>
       Device.Fingerprint (cell st 1) = ''fp-phone'' \<and>
       map_of (Service.devices example_service) ''fp-phone'' = None \<and>
       Service.devices s2 = [(''fp-phone'', 0)] \<and>
       LastSeen (cell st2 0) = 200 \<and> Available (cell st2 0) \<and>
       Device.Alias (cell st2 0) = ''phone'' \<and>
       fired1 = [Go (Callback 0) 0] \<and> fired2 = [])"
  using upsert_dedup [where s = example_service and ?a1.0 = 0 and ?a2.0 = 1
      and fp = "''fp-phone''" and ?now1.0 = 100 and ?now2.0 = 200
      and st = "snd (new_Device
                   (snd (new_Device example_store (FromMulticastDto example_peer_dto ''10.0.0.1'' 100)))
                   (FromMulticastDto example_peer_dto ''10.0.0.2'' 200))"]
  by (simp add: new_Device_def FromMulticastDto_def updateDevice_def UpdateLastSeen_def
      example_service_def NewService_def example_store_def example_peer_dto_def Let_def)

text \<open>
  The claim as first stated has the repeat sighting update the entry's IP as well. A
  peer seen at \<^verbatim>\<open>10.0.0.1\<close> and then at \<^verbatim>\<open>10.0.0.2\<close> stays registered at \<^verbatim>\<open>10.0.0.1\<close>.
\<close>

theorem upsert_keeps_first_ip:
  "(case example_two_sightings 100 200 of (s, st, fired) \<Rightarrow>
      map_of (Service.devices s) ''fp-phone'' = Some 0 \<and>
      Device.IP (cell st 0) = ''10.0.0.1'' \<and>
      Device.IP (cell st 0) \<noteq> ''10.0.0.2'' \<and>
      LastSeen (cell st 0) = 200)"
  by (simp add: example_two_sightings_def new_Device_def FromMulticastDto_def updateDevice_def
      UpdateLastSeen_def example_service_def NewService_def example_store_def
      example_peer_dto_def Let_def)

text \<open>
  Claim C7. A registered device whose last-seen time lies more than the configured
  device timeout (2 minutes by default) before the time of a read is absent from
  that read: \<open>GetDevice\<close> finds nothing under its fingerprint and \<open>GetDevices\<close> does
  not list it. The reads return no new state, so the record stays in the registry.
  A later sighting of the same fingerprint, handed to the service's \<open>updateDevice\<close>
  or to the listener's when its map points to the same object, changes only the
  last-seen time and the availability of the recorded object, and a read made within
  the timeout after it finds the device again, with every other field as first seen.
\<close>

theorem stale_hidden_until_refreshed:
  assumes "map_of (Service.devices s) fp = Some a"
    and "now - LastSeen (cell st a) > DeviceTimeout (Service.config s)"
  shows "GetDevice s st now fp = None \<and> a \<notin> set (GetDevices s st now) \<and>
         DeviceTimeout DefaultServiceConfig = 2 * Minute \<and>
         (\<forall>b now2 now3.
            Device.Fingerprint (cell st b) = fp \<and> now3 - now2 \<le> DeviceTimeout (Service.config s) \<longrightarrow>
              (case updateDevice s st b now2 of (s', st', fired) \<Rightarrow>
                 s' = s \<and> fired = [] \<and>
                 cell st' = (cell st)(a := (cell st a)\<lparr>LastSeen := now2, Available := True\<rparr>) \<and>
                 GetDevice s' st' now3 fp = Some a \<and> a \<in> set (GetDevices s' st' now3))) \<and>
         (\<forall>md b now2 now3.
            map_of (MulticastDiscovery.devices md) fp = Some a \<and>
            Device.Fingerprint (cell st b) = fp \<and>
            now3 - now2 \<le> DeviceTimeout (Service.config s) \<longrightarrow>
              (case MD_updateDevice md st b now2 of (md', st', fired) \<Rightarrow>
                 md' = md \<and> fired = [] \<and>
                 cell st' = (cell st)(a := (cell st a)\<lparr>LastSeen := now2, Available := True\<rparr>) \<and>
                 GetDevice s st' now3 fp = Some a \<and> a \<in> set (GetDevices s st' now3)))"
proof -
  have stale: "IsStale now (cell st a) (DeviceTimeout (Service.config s))"
    using assms(2) by (simp add: IsStale_def)
  have mem: "a \<in> snd ` set (Service.devices s)"
    using assms(1) by (metis map_of_SomeD image_eqI snd_conv)
  have hidden: "GetDevice s st now fp = None \<and> a \<notin> set (GetDevices s st now)"
    using assms(1) stale by (simp add: GetDevice_def GetDevices_def)
  have dflt: "DeviceTimeout DefaultServiceConfig = 2 * Minute"
    by (simp add: DefaultServiceConfig_def)
  have again: "\<forall>b now2 now3.
            Device.Fingerprint (cell st b) = fp \<and> now3 - now2 \<le> DeviceTimeout (Service.config s) \<longrightarrow>
              (case updateDevice s st b now2 of (s', st', fired) \<Rightarrow>
                 s' = s \<and> fired = [] \<and>
                 cell st' = (cell st)(a := (cell st a)\<lparr>LastSeen := now2, Available := True\<rparr>) \<and>
                 GetDevice s' st' now3 fp = Some a \<and> a \<in> set (GetDevices s' st' now3))"
    using assms(1) mem
    by (simp add: updateDevice_def GetDevice_def GetDevices_def IsStale_def UpdateLastSeen_def)
  have listener: "\<forall>md b now2 now3.
            map_of (MulticastDiscovery.devices md) fp = Some a \<and>
            Device.Fingerprint (cell st b) = fp \<and>
            now3 - now2 \<le> DeviceTimeout (Service.config s) \<longrightarrow>
              (case MD_updateDevice md st b now2 of (md', st', fired) \<Rightarrow>
                 md' = md \<and> fired = [] \<and>
                 cell st' = (cell st)(a := (cell st a)\<lparr>LastSeen := now2, Available := True\<rparr>) \<and>
                 GetDevice s st' now3 fp = Some a \<and> a \<in> set (GetDevices s st' now3))"
    using assms(1) mem
    by (simp add: MD_updateDevice_def GetDevice_def GetDevices_def IsStale_def
        UpdateLastSeen_def Let_def)
  show ?thesis using hidden dflt again listener by blast
qed

theorem stale_hidden_until_refreshed_witness:
  "(case example_registry 0 (3 * Minute) of (s, st) \<Rightarrow>
      map_of (Service.devices s) ''fp-phone'' = Some 0 \<and>
      3 * Minute - LastSeen (cell st 0) > DeviceTimeout (Service.config s) \<and>
      GetDevice s st (3 * Minute) ''fp-phone'' = None \<and>
      GetDevices s st (3 * Minute) = [] \<and>
      (case updateDevice s st 1 (3 * Minute) of (s', st', fired) \<Rightarrow>
         GetDevice s' st' (3 * Minute + Second) ''fp-phone'' = Some 0 \<and>
         GetDevices s' st' (3 * Minute + Second) = [0] \<and>
         Device.IP (cell st' 0) = ''10.0.0.1'' \<and> Device.Alias (cell st' 0) = ''phone'' \<and>
         LastSeen (cell st' 0) = 3 * Minute))"
  using stale_hidden_until_refreshed [where s = "fst (example_registry 0 (3 * Minute))"
      and st = "snd (example_registry 0 (3 * Minute))" and fp = "''fp-phone''" and a = 0
      and now = "3 * Minute"]
  by (simp add: example_registry_def new_Device_def FromMulticastDto_def updateDevice_def
      UpdateLastSeen_def example_service_def NewService_def example_store_def
      example_peer_dto_def DefaultServiceConfig_def GetDevice_def GetDevices_def IsStale_def
      Let_def)

section \<open>Discovery: the one-shot scan\<close>






end
